theory Spec2Isabelle
  imports Main
begin

section \<open>The command layer of \<open>src/instructlab/lab.py\<close>\<close>

text \<open>
  The module defines three click commands. \<open>init\<close> and \<open>diff\<close> are embedded here as
  functions from the command's arguments and the answers of its collaborators to the
  sequence of observable calls the command makes (its trace) and the way it ends (its
  outcome). The collaborators (the filesystem, the user at the prompt, GitPython,
  \<open>instructlab.config\<close> and \<open>instructlab.utils\<close>) are not part of the module: each is a
  field of an environment record that gives the collaborator's answer at its call site.
\<close>

subsection \<open>Exceptions, outcomes and events\<close>

text \<open>
  The exceptions the module names or can meet. Each constructor stands for the Python
  class and its subclasses and carries \<open>str(exc)\<close>, the text an f-string prints for it.
  \<open>OSError\<close> stands for the operating-system errors other than \<open>FileNotFoundError\<close>
  (\<open>os.listdir\<close> on a regular file raises \<open>NotADirectoryError\<close>), \<open>Exception\<close> for any
  class that no handler of the module names.
\<close>

datatype exn =
    FileNotFoundError string
  | OSError string
  | GitError string
  | SystemExit string
  | YAMLError string
  | AttributeError string
  | Exception string

fun str :: "exn \<Rightarrow> string" where
  "str (FileNotFoundError m) = m"
| "str (OSError m) = m"
| "str (GitError m) = m"
| "str (SystemExit m) = m"
| "str (YAMLError m) = m"
| "str (AttributeError m) = m"
| "str (Exception m) = m"

text \<open>
  How a command ends: it returns, it raises \<open>click.exceptions.Exit(code)\<close> (which click
  turns into the process status), it raises \<open>SystemExit(code)\<close> itself, or an exception
  leaves it unhandled.
\<close>

datatype outcome =
    Returned
  | ClickExit int
  | SysExit int
  | Raised exn

text \<open>
  The status of the process: 0 after a normal return, the code of an exit request, and 1
  when the interpreter ends on an unhandled exception (the traceback goes to standard
  error).
\<close>

fun exit_code :: "outcome \<Rightarrow> int" where
  "exit_code Returned = 0"
| "exit_code (ClickExit n) = n"
| "exit_code (SysExit n) = n"
| "exit_code (Raised e) = 1"

text \<open>The value passed as \<open>depth\<close>: Python's \<open>False\<close> or the integer 1.\<close>

datatype pyval = PyBool bool | PyInt int

datatype logger = Logger string

record cfg_chat =
  chat_model :: string

record cfg_generate =
  generate_model :: string
  generate_taxonomy_path :: string
  generate_taxonomy_base :: string

record cfg_serve =
  serve_model_path :: string

record Config =
  chat :: cfg_chat
  generate :: cfg_generate
  serve :: cfg_serve

text \<open>
  The calls a command makes that act on the world or that a collaborator answers with a
  possible failure, in the order they are made. \<open>Secho\<close> carries the \<open>fg\<close> colour when one
  is given; \<open>CloneFrom\<close> carries the five arguments of \<open>Repo.clone_from\<close>; \<open>ReadTaxonomy\<close>
  the four arguments of \<open>read_taxonomy\<close>. Pure queries (\<open>exists\<close>, \<open>os.listdir\<close>,
  \<open>os.path.isfile\<close>, \<open>dirname\<close>) are not recorded.
\<close>

datatype event =
    Echo string
  | Secho string "string option"
  | Confirm string
  | Prompt string string
  | CloneFrom string string string bool pyval
  | WriteConfig Config
  | GetTaxonomyDiff string string
  | ReadTaxonomy logger string string "string option"

fun is_output :: "event \<Rightarrow> bool" where
  "is_output (Echo s) = True"
| "is_output (Secho s c) = True"
| "is_output (Confirm s) = True"
| "is_output (Prompt s d) = True"
| "is_output _ = False"

fun is_echo :: "event \<Rightarrow> bool" where
  "is_echo (Echo s) = True"
| "is_echo _ = False"

fun is_clone :: "event \<Rightarrow> bool" where
  "is_clone (CloneFrom r p b s d) = True"
| "is_clone _ = False"

fun is_write :: "event \<Rightarrow> bool" where
  "is_write (WriteConfig c) = True"
| "is_write _ = False"

fun is_diff_list :: "event \<Rightarrow> bool" where
  "is_diff_list (GetTaxonomyDiff p b) = True"
| "is_diff_list _ = False"

fun is_validation :: "event \<Rightarrow> bool" where
  "is_validation (ReadTaxonomy l p b y) = True"
| "is_validation _ = False"

subsection \<open>\<open>init\<close>\<close>

text \<open>
  What \<open>init\<close> asks of its surroundings. \<open>DEFAULT_CONFIG\<close> and \<open>get_default_config\<close>
  belong to \<open>instructlab.config\<close>, \<open>expand_path\<close> to \<open>instructlab.utils\<close>; none of them
  is defined in the module, so they are parameters. \<open>exists\<close> is called twice, before and
  after the clone, so each call site has its own answer. \<open>confirm\<close> and \<open>prompt\<close> give the
  value click returns for a question (\<open>prompt\<close> also takes the default that click shows).
  \<open>listdir\<close> and \<open>clone_from\<close> return or raise.
\<close>

record init_env =
  DEFAULT_CONFIG :: string
  get_default_config :: Config
  exists_config :: "string \<Rightarrow> bool"
  exists_models_dir :: "string \<Rightarrow> bool"
  dirname :: "string \<Rightarrow> string"
  confirm :: "string \<Rightarrow> bool"
  prompt :: "string \<Rightarrow> string \<Rightarrow> string"
  expand_path :: "string \<Rightarrow> string"
  listdir :: "string \<Rightarrow> exn + string list"
  clone_from :: "string \<Rightarrow> string \<Rightarrow> string \<Rightarrow> bool \<Rightarrow> pyval \<Rightarrow> exn option"

definition found_question :: "init_env \<Rightarrow> string" where
  "found_question env =
     ''Found '' @ DEFAULT_CONFIG env @ '' in the current directory, do you still want to continue?''"

definition clone_question :: "string \<Rightarrow> string \<Rightarrow> string" where
  "clone_question taxonomy_path repository =
     ''`'' @ taxonomy_path @ ''` seems to not exist or is empty. Should I clone ''
       @ repository @ '' for you?''"

text \<open>
  Lines 120 to 126: in interactive mode, when the configuration file exists, the user is
  asked whether to go on; \<open>init\<close> returns at once when the answer is no.
\<close>

definition init_declined :: "init_env \<Rightarrow> bool \<Rightarrow> bool" where
  "init_declined env interactive =
     (interactive \<and> exists_config env (DEFAULT_CONFIG env) \<and> \<not> confirm env (found_question env))"

text \<open>Line 135: the taxonomy path the rest of \<open>init\<close> works with.\<close>

definition init_taxonomy_path :: "init_env \<Rightarrow> bool \<Rightarrow> string \<Rightarrow> string" where
  "init_taxonomy_path env interactive taxonomy_path =
     (if interactive
      then expand_path env (prompt env ''Path to taxonomy repo'' taxonomy_path)
      else taxonomy_path)"

text \<open>Lines 120 to 137: what is shown and asked before the directory is looked at.\<close>

definition init_welcome :: "init_env \<Rightarrow> bool \<Rightarrow> string \<Rightarrow> event list" where
  "init_welcome env interactive taxonomy_path =
     (if interactive then
        (if exists_config env (DEFAULT_CONFIG env) then [Confirm (found_question env)] else []) @
        [Echo ''Welcome to InstructLab ilab. This guide will help you to setup your environment.'',
         Echo ''Please provide the following values to initiate the environment [press Enter for defaults]:'',
         Prompt ''Path to taxonomy repo'' taxonomy_path]
      else [])"

text \<open>
  Lines 139 to 142: the directory's entries; a missing directory counts as empty, any
  other error of \<open>os.listdir\<close> is not handled.
\<close>

definition init_contents :: "init_env \<Rightarrow> string \<Rightarrow> exn + string list" where
  "init_contents env taxonomy_path =
     (case listdir env taxonomy_path of
        Inl (FileNotFoundError m) \<Rightarrow> Inr []
      | Inl exc \<Rightarrow> Inl exc
      | Inr taxonomy_contents \<Rightarrow> Inr taxonomy_contents)"

text \<open>Lines 119 and 143 to 148: whether to clone, and the question asked to find out.\<close>

definition init_decide ::
  "init_env \<Rightarrow> bool \<Rightarrow> string \<Rightarrow> string \<Rightarrow> string list \<Rightarrow> event list \<times> bool" where
  "init_decide env interactive repository taxonomy_path taxonomy_contents =
     (if taxonomy_contents \<noteq> [] then ([], False)
      else if interactive then
        ([Confirm (clone_question taxonomy_path repository)],
         confirm env (clone_question taxonomy_path repository))
      else ([], True))"

text \<open>Line 153.\<close>

definition clone_depth :: "bool \<Rightarrow> pyval" where
  "clone_depth min_taxonomy = (if \<not> min_taxonomy then PyBool False else PyInt 1)"

text \<open>
  Lines 152 to 165: the clone. The second component is \<open>Some\<close> outcome when \<open>init\<close> ends
  here.
\<close>

definition init_clone ::
  "init_env \<Rightarrow> string \<Rightarrow> bool \<Rightarrow> string \<Rightarrow> event list \<times> outcome option" where
  "init_clone env repository min_taxonomy taxonomy_path =
     (case clone_from env repository taxonomy_path ''main'' True (clone_depth min_taxonomy) of
        None \<Rightarrow>
          ([Echo (''Cloning '' @ repository @ ''...''),
            CloneFrom repository taxonomy_path ''main'' True (clone_depth min_taxonomy)], None)
      | Some (GitError m) \<Rightarrow>
          ([Echo (''Cloning '' @ repository @ ''...''),
            CloneFrom repository taxonomy_path ''main'' True (clone_depth min_taxonomy),
            Secho (''Failed to clone taxonomy repo: '' @ str (GitError m)) (Some ''red''),
            Secho (''Please make sure to manually run `git clone '' @ repository @ ''`'') None],
           Some (ClickExit 1))
      | Some exc \<Rightarrow>
          ([Echo (''Cloning '' @ repository @ ''...''),
            CloneFrom repository taxonomy_path ''main'' True (clone_depth min_taxonomy)],
           Some (Raised exc)))"

text \<open>Lines 168 to 172: the model path that is written.\<close>

definition init_model_path :: "init_env \<Rightarrow> bool \<Rightarrow> string \<Rightarrow> string" where
  "init_model_path env interactive model_path =
     (if interactive \<and> exists_models_dir env (dirname env model_path)
      then expand_path env (prompt env ''Path to your model'' model_path)
      else model_path)"

text \<open>Lines 174 to 179: the default configuration with five fields assigned.\<close>

definition init_cfg :: "init_env \<Rightarrow> string \<Rightarrow> string \<Rightarrow> string \<Rightarrow> Config" where
  "init_cfg env model_path taxonomy_path taxonomy_base =
     (let cfg = get_default_config env in
      cfg\<lparr>chat := (chat cfg)\<lparr>chat_model := model_path\<rparr>,
          generate := (generate cfg)\<lparr>generate_model := model_path,
                                     generate_taxonomy_path := taxonomy_path,
                                     generate_taxonomy_base := taxonomy_base\<rparr>,
          serve := (serve cfg)\<lparr>serve_model_path := model_path\<rparr>\<rparr>)"

text \<open>Lines 167 to 184: the model path is settled and the configuration written.\<close>

definition init_write :: "init_env \<Rightarrow> bool \<Rightarrow> string \<Rightarrow> string \<Rightarrow> string \<Rightarrow> event list" where
  "init_write env interactive model_path taxonomy_path taxonomy_base =
     (if interactive \<and> exists_models_dir env (dirname env model_path)
      then [Prompt ''Path to your model'' model_path] else []) @
     [Echo (''Generating `'' @ DEFAULT_CONFIG env @ ''` in the current directory...''),
      WriteConfig (init_cfg env (init_model_path env interactive model_path)
                     taxonomy_path taxonomy_base),
      Echo ''Initialization completed successfully, you're ready to start using `ilab`. Enjoy!'']"

text \<open>The command, with the parameters of the Python function in their order.\<close>

definition init ::
  "init_env \<Rightarrow> bool \<Rightarrow> string \<Rightarrow> string \<Rightarrow> string \<Rightarrow> string \<Rightarrow> bool \<Rightarrow> event list \<times> outcome" where
  "init env interactive model_path taxonomy_path taxonomy_base repository min_taxonomy =
     (if init_declined env interactive then ([Confirm (found_question env)], Returned)
      else
        (let tr0 = init_welcome env interactive taxonomy_path;
             tp = init_taxonomy_path env interactive taxonomy_path
         in case init_contents env tp of
              Inl exc \<Rightarrow> (tr0, Raised exc)
            | Inr taxonomy_contents \<Rightarrow>
                (case init_decide env interactive repository tp taxonomy_contents of
                   (tr1, clone_taxonomy_repo) \<Rightarrow>
                     (case (if clone_taxonomy_repo
                            then init_clone env repository min_taxonomy tp
                            else ([], None)) of
                        (tr2, Some out) \<Rightarrow> (tr0 @ tr1 @ tr2, out)
                      | (tr2, None) \<Rightarrow>
                          (tr0 @ tr1 @ tr2 @
                             init_write env interactive model_path tp taxonomy_base,
                           Returned)))))"

text \<open>
  Whether a run reaches the clone at line 151: it was not declined, the directory could
  be listed (or was missing), and \<open>clone_taxonomy_repo\<close> is true.
\<close>

definition init_clones :: "init_env \<Rightarrow> bool \<Rightarrow> string \<Rightarrow> string \<Rightarrow> bool" where
  "init_clones env interactive taxonomy_path repository =
     (\<not> init_declined env interactive \<and>
      (case init_contents env (init_taxonomy_path env interactive taxonomy_path) of
         Inl exc \<Rightarrow> False
       | Inr taxonomy_contents \<Rightarrow>
           snd (init_decide env interactive repository
                  (init_taxonomy_path env interactive taxonomy_path) taxonomy_contents)))"

text \<open>\<open>os.path.isabs\<close> on POSIX: the path starts with a slash.\<close>

definition isabs :: "string \<Rightarrow> bool" where
  "isabs p = (case p of [] \<Rightarrow> False | c # cs \<Rightarrow> c = CHR ''/'')"

subsection \<open>\<open>diff\<close>\<close>

text \<open>
  \<open>ctx.obj\<close> is \<open>None\<close> or the object that carries the loaded configuration and the
  logger. The options \<open>--taxonomy-path\<close>, \<open>--taxonomy-base\<close> and \<open>--yaml-rules\<close> have no
  default, so click passes \<open>None\<close> when one is omitted.
\<close>

record Lab =
  config :: Config
  logger :: logger

record Context =
  obj :: "Lab option"

record diff_env =
  isfile :: "string \<Rightarrow> bool"
  get_taxonomy_diff :: "string \<Rightarrow> string \<Rightarrow> exn + string list"
  read_taxonomy :: "logger \<Rightarrow> string \<Rightarrow> string \<Rightarrow> string option \<Rightarrow> exn + unit"

text \<open>Python's \<open>not x\<close> for an optional string: true of \<open>None\<close> and of the empty string.\<close>

fun py_not :: "string option \<Rightarrow> bool" where
  "py_not None = True"
| "py_not (Some s) = (s = [])"

text \<open>
  \<open>ctx.obj.config.generate.<field>\<close>: reading the attribute \<open>config\<close> of \<open>None\<close> raises
  \<open>AttributeError\<close>, with the interpreter's message.
\<close>

definition no_attribute_config :: string where
  "no_attribute_config =
     CHR 0x27 # ''NoneType'' @ CHR 0x27 # '' object has no attribute '' @ CHR 0x27 # ''config'' @ [CHR 0x27]"

definition ctx_generate :: "Context \<Rightarrow> (cfg_generate \<Rightarrow> string) \<Rightarrow> exn + string" where
  "ctx_generate ctx field =
     (case obj ctx of
        None \<Rightarrow> Inl (AttributeError no_attribute_config)
      | Some lab \<Rightarrow> Inr (field (generate (config lab))))"

definition resolve_option :: "Context \<Rightarrow> (cfg_generate \<Rightarrow> string) \<Rightarrow> string option \<Rightarrow> exn + string" where
  "resolve_option ctx field opt =
     (if py_not opt then ctx_generate ctx field
      else (case opt of Some s \<Rightarrow> Inr s | None \<Rightarrow> ctx_generate ctx field))"

text \<open>Lines 222 to 225: the logger, chosen after both options are resolved.\<close>

definition diff_logger :: "Context \<Rightarrow> logger" where
  "diff_logger ctx =
     (case obj ctx of
        None \<Rightarrow> Logger ''instructlab.lab''
      | Some lab \<Rightarrow> logger lab)"

text \<open>
  Lines 218 to 225: the base is resolved first, then the path, then the logger. The
  result is the triple (path, base, logger) the rest of the command works with.
\<close>

definition diff_resolve ::
  "Context \<Rightarrow> string option \<Rightarrow> string option \<Rightarrow> exn + (string \<times> string \<times> logger)" where
  "diff_resolve ctx taxonomy_path taxonomy_base =
     (case resolve_option ctx generate_taxonomy_base taxonomy_base of
        Inl e \<Rightarrow> Inl e
      | Inr b \<Rightarrow>
          (case resolve_option ctx generate_taxonomy_path taxonomy_path of
             Inl e \<Rightarrow> Inl e
           | Inr p \<Rightarrow> Inr (p, b, diff_logger ctx)))"

definition reading_failed :: "exn \<Rightarrow> event" where
  "reading_failed exc =
     Secho (''Reading taxonomy failed with the following error: '' @ str exc) (Some ''red'')"

text \<open>The two handlers: \<open>except (SystemExit, GitError)\<close> and \<open>except (SystemExit, yaml.YAMLError)\<close>.\<close>

fun listing_handler :: "exn \<Rightarrow> bool" where
  "listing_handler (SystemExit m) = True"
| "listing_handler (GitError m) = True"
| "listing_handler _ = False"

fun validation_handler :: "exn \<Rightarrow> bool" where
  "validation_handler (SystemExit m) = True"
| "validation_handler (YAMLError m) = True"
| "validation_handler _ = False"

text \<open>
  Lines 227 to 241: the listing. The second component is \<open>Some\<close> outcome when the command
  ends here and \<open>None\<close> when it goes on to line 242.
\<close>

definition diff_listing ::
  "diff_env \<Rightarrow> bool \<Rightarrow> string \<Rightarrow> string \<Rightarrow> event list \<times> outcome option" where
  "diff_listing env quiet p b =
     (if \<not> quiet then
        (if isfile env p then ([Echo p], None)
         else
           (case get_taxonomy_diff env p b of
              Inl exc \<Rightarrow>
                (if listing_handler exc
                 then ([GetTaxonomyDiff p b, reading_failed exc], Some (SysExit 1))
                 else ([GetTaxonomyDiff p b], Some (Raised exc)))
            | Inr updated_taxonomy_files \<Rightarrow>
                (GetTaxonomyDiff p b # map Echo updated_taxonomy_files, None)))
      else ([], None))"

text \<open>Lines 242 to 255: the validation.\<close>

definition diff_validation ::
  "diff_env \<Rightarrow> bool \<Rightarrow> logger \<Rightarrow> string \<Rightarrow> string \<Rightarrow> string option \<Rightarrow> event list \<times> outcome" where
  "diff_validation env quiet lg p b yaml_rules =
     (case read_taxonomy env lg p b yaml_rules of
        Inl exc \<Rightarrow>
          (if validation_handler exc
           then (ReadTaxonomy lg p b yaml_rules #
                   (if \<not> quiet then [reading_failed exc] else []), SysExit 1)
           else ([ReadTaxonomy lg p b yaml_rules], Raised exc))
      | Inr u \<Rightarrow>
          (ReadTaxonomy lg p b yaml_rules #
             (if \<not> quiet
              then [Secho (''Taxonomy in /'' @ p @ ''/ is valid :)'') (Some ''green'')]
              else []), Returned))"

definition diff ::
  "diff_env \<Rightarrow> Context \<Rightarrow> string option \<Rightarrow> string option \<Rightarrow> string option \<Rightarrow> bool
     \<Rightarrow> event list \<times> outcome" where
  "diff env ctx taxonomy_path taxonomy_base yaml_rules quiet =
     (case diff_resolve ctx taxonomy_path taxonomy_base of
        Inl e \<Rightarrow> ([], Raised e)
      | Inr (p, b, lg) \<Rightarrow>
          (case diff_listing env quiet p b of
             (tr, Some out) \<Rightarrow> (tr, out)
           | (tr, None) \<Rightarrow>
               (case diff_validation env quiet lg p b yaml_rules of
                  (tr', out) \<Rightarrow> (tr @ tr', out))))"

subsection \<open>Example surroundings\<close>

text \<open>Concrete contexts and repositories on which the theorems below are run.\<close>

definition example_config :: Config where
  "example_config =
     \<lparr>chat = \<lparr>chat_model = ''models/m.gguf''\<rparr>,
      generate = \<lparr>generate_model = ''models/m.gguf'',
                  generate_taxonomy_path = ''taxonomy'',
                  generate_taxonomy_base = ''origin/main''\<rparr>,
      serve = \<lparr>serve_model_path = ''models/m.gguf''\<rparr>\<rparr>"

definition example_ctx :: Context where
  "example_ctx = \<lparr>obj = Some \<lparr>config = example_config, logger = Logger ''ilab''\<rparr>\<rparr>"

definition no_ctx :: Context where
  "no_ctx = \<lparr>obj = None\<rparr>"

definition failing_repo :: diff_env where
  "failing_repo =
     \<lparr>isfile = (\<lambda>p. p = ''compositional_skills/qna.yaml''),
      get_taxonomy_diff = (\<lambda>p b. Inl (GitError ''bad revision'')),
      read_taxonomy = (\<lambda>lg p b y. if p = ''taxonomy'' then Inl (YAMLError ''line 3'') else Inr ())\<rparr>"

definition valid_repo :: diff_env where
  "valid_repo =
     \<lparr>isfile = (\<lambda>p. p = ''compositional_skills/qna.yaml''),
      get_taxonomy_diff = (\<lambda>p b. Inr [''knowledge/a/qna.yaml'', ''knowledge/b/qna.yaml'']),
      read_taxonomy = (\<lambda>lg p b y. Inr ())\<rparr>"


text \<open>
  Surroundings of \<open>init\<close>: no configuration file yet, \<open>/tax\<close> an empty directory and no
  other taxonomy directory, \<open>/models\<close> present, a user who accepts every default, a clone
  that succeeds, and an \<open>expand_path\<close> that makes a relative path absolute. The variants
  differ in one answer.
\<close>

definition taxonomy_repo :: string where
  "taxonomy_repo = ''https://github.com/instructlab/taxonomy.git''"

definition fresh_dir :: init_env where
  "fresh_dir =
     \<lparr>DEFAULT_CONFIG = ''config.yaml'',
      get_default_config = example_config,
      exists_config = (\<lambda>p. False),
      exists_models_dir = (\<lambda>p. p = ''/models''),
      dirname = (\<lambda>p. if p = ''/models/m'' then ''/models'' else ''models''),
      confirm = (\<lambda>q. True),
      prompt = (\<lambda>q d. d),
      expand_path = (\<lambda>p. if isabs p then p else ''/home/user/'' @ p),
      listdir = (\<lambda>p. if p = ''/tax'' then Inr [] else Inl (FileNotFoundError p)),
      clone_from = (\<lambda>r p b s d. None)\<rparr>"

definition unreachable_remote :: init_env where
  "unreachable_remote =
     fresh_dir\<lparr>clone_from := (\<lambda>r p b s d. Some (GitError ''repository not found''))\<rparr>"

definition populated_dir :: init_env where
  "populated_dir = fresh_dir\<lparr>listdir := (\<lambda>p. Inr [''README.md'', ''knowledge''])\<rparr>"

subsection \<open>Properties of \<open>init\<close>\<close>

lemmas init_stage_defs =
  init_def init_declined_def init_welcome_def init_taxonomy_path_def init_contents_def
  init_decide_def init_clone_def clone_depth_def init_write_def init_model_path_def init_cfg_def
  found_question_def clone_question_def Let_def

lemma init_welcome_no_clone [simp]: "filter is_clone (init_welcome env i tp) = []"
  by (simp add: init_welcome_def)

lemma init_welcome_no_write [simp]: "filter is_write (init_welcome env i tp) = []"
  by (simp add: init_welcome_def)

lemma init_decide_no_clone [simp]: "filter is_clone (fst (init_decide env i r tp cs)) = []"
  by (simp add: init_decide_def)

lemma init_decide_no_write [simp]: "filter is_write (fst (init_decide env i r tp cs)) = []"
  by (simp add: init_decide_def)

lemma init_clone_calls [simp]:
  "filter is_clone (fst (init_clone env r mt tp)) = [CloneFrom r tp ''main'' True (clone_depth mt)]"
  by (simp add: init_clone_def split: option.splits exn.splits)

lemma init_clone_no_write [simp]: "filter is_write (fst (init_clone env r mt tp)) = []"
  by (simp add: init_clone_def split: option.splits exn.splits)

lemma init_write_no_clone [simp]: "filter is_clone (init_write env i mp tp tb) = []"
  by (simp add: init_write_def)

lemma init_write_writes [simp]:
  "filter is_write (init_write env i mp tp tb) =
     [WriteConfig (init_cfg env (init_model_path env i mp) tp tb)]"
  by (simp add: init_write_def)

lemma init_clone_ends:
  "snd (init_clone env r mt tp) = Some out \<Longrightarrow> out \<noteq> Returned"
  by (auto simp: init_clone_def split: option.splits exn.splits)

lemma init_when_declined:
  "init_declined env i \<Longrightarrow> init env i mp tp tb r mt = ([Confirm (found_question env)], Returned)"
  by (simp add: init_def)

lemma init_when_unlisted:
  "\<not> init_declined env i \<Longrightarrow> init_contents env (init_taxonomy_path env i tp) = Inl exc \<Longrightarrow>
     init env i mp tp tb r mt = (init_welcome env i tp, Raised exc)"
  by (simp add: init_def)

lemma init_when_listed:
  "\<not> init_declined env i \<Longrightarrow> init_contents env (init_taxonomy_path env i tp) = Inr cs \<Longrightarrow>
     init env i mp tp tb r mt =
       (if snd (init_decide env i r (init_taxonomy_path env i tp) cs) then
          (case snd (init_clone env r mt (init_taxonomy_path env i tp)) of
             Some out \<Rightarrow>
               (init_welcome env i tp @ fst (init_decide env i r (init_taxonomy_path env i tp) cs) @
                  fst (init_clone env r mt (init_taxonomy_path env i tp)), out)
           | None \<Rightarrow>
               (init_welcome env i tp @ fst (init_decide env i r (init_taxonomy_path env i tp) cs) @
                  fst (init_clone env r mt (init_taxonomy_path env i tp)) @
                  init_write env i mp (init_taxonomy_path env i tp) tb, Returned))
        else
          (init_welcome env i tp @ fst (init_decide env i r (init_taxonomy_path env i tp) cs) @
             init_write env i mp (init_taxonomy_path env i tp) tb, Returned))"
  by (auto simp: init_def Let_def split: prod.splits option.splits)

lemma init_clone_events:
  "filter is_clone (fst (init env i mp tp tb r mt)) =
     (if init_clones env i tp r
      then [CloneFrom r (init_taxonomy_path env i tp) ''main'' True (clone_depth mt)]
      else [])"
proof (cases "init_declined env i")
  case True
  then show ?thesis by (simp add: init_when_declined init_clones_def)
next
  case False
  show ?thesis
  proof (cases "init_contents env (init_taxonomy_path env i tp)")
    case (Inl exc)
    with False show ?thesis by (simp add: init_when_unlisted init_clones_def)
  next
    case (Inr cs)
    with False show ?thesis
      by (simp add: init_when_listed init_clones_def split: option.splits)
  qed
qed

lemma init_write_events:
  "filter is_write (fst (init env i mp tp tb r mt)) =
     (if snd (init env i mp tp tb r mt) = Returned \<and> \<not> init_declined env i
      then [WriteConfig (init_cfg env (init_model_path env i mp) (init_taxonomy_path env i tp) tb)]
      else [])"
proof (cases "init_declined env i")
  case True
  then show ?thesis by (simp add: init_when_declined)
next
  case False
  show ?thesis
  proof (cases "init_contents env (init_taxonomy_path env i tp)")
    case (Inl exc)
    with False show ?thesis by (simp add: init_when_unlisted)
  next
    case (Inr cs)
    with False show ?thesis
      by (auto simp: init_when_listed split: option.splits dest: init_clone_ends)
  qed
qed

lemma init_clones_iff:
  "init_clones env i tp r \<longleftrightarrow>
     \<not> init_declined env i \<and>
     (listdir env (init_taxonomy_path env i tp) = Inr [] \<or>
      (\<exists>m. listdir env (init_taxonomy_path env i tp) = Inl (FileNotFoundError m))) \<and>
     (i \<longrightarrow> confirm env (clone_question (init_taxonomy_path env i tp) r))"
  by (auto simp: init_clones_def init_contents_def init_decide_def split: sum.splits exn.splits)

lemma init_cfg_fields:
  "chat_model (chat (init_cfg env mp tp tb)) = mp"
  "generate_model (generate (init_cfg env mp tp tb)) = mp"
  "serve_model_path (serve (init_cfg env mp tp tb)) = mp"
  "generate_taxonomy_path (generate (init_cfg env mp tp tb)) = tp"
  "generate_taxonomy_base (generate (init_cfg env mp tp tb)) = tb"
  by (simp_all add: init_cfg_def Let_def)

text \<open>
  Claim C4. When the taxonomy directory (the path \<open>init\<close> lists at line 140) exists and is
  not empty, \<open>init\<close> never calls \<open>Repo.clone_from\<close>. When it is empty or missing, and the
  mode is non-interactive or the user, asked, confirms the clone, \<open>Repo.clone_from\<close> is
  called exactly once, for that path, with \<open>branch="main"\<close> and \<open>recurse_submodules=True\<close>.
\<close>

theorem init_clone_once:
  "(listdir env (init_taxonomy_path env interactive taxonomy_path) = Inr (x # xs) \<longrightarrow>
      filter is_clone
        (fst (init env interactive model_path taxonomy_path taxonomy_base repository min_taxonomy)) = []) \<and>
   ((listdir env (init_taxonomy_path env interactive taxonomy_path) = Inr [] \<or>
     listdir env (init_taxonomy_path env interactive taxonomy_path) = Inl (FileNotFoundError m)) \<and>
    (\<not> interactive \<or>
     (\<not> init_declined env interactive \<and>
      confirm env (clone_question (init_taxonomy_path env interactive taxonomy_path) repository))) \<longrightarrow>
      filter is_clone
        (fst (init env interactive model_path taxonomy_path taxonomy_base repository min_taxonomy)) =
        [CloneFrom repository (init_taxonomy_path env interactive taxonomy_path) ''main'' True
           (clone_depth min_taxonomy)])"
proof (intro conjI impI)
  assume "listdir env (init_taxonomy_path env interactive taxonomy_path) = Inr (x # xs)"
  then have "\<not> init_clones env interactive taxonomy_path repository"
    by (simp add: init_clones_iff)
  then show "filter is_clone
        (fst (init env interactive model_path taxonomy_path taxonomy_base repository min_taxonomy)) = []"
    by (simp add: init_clone_events)
next
  assume "(listdir env (init_taxonomy_path env interactive taxonomy_path) = Inr [] \<or>
     listdir env (init_taxonomy_path env interactive taxonomy_path) = Inl (FileNotFoundError m)) \<and>
    (\<not> interactive \<or>
     (\<not> init_declined env interactive \<and>
      confirm env (clone_question (init_taxonomy_path env interactive taxonomy_path) repository)))"
  then have "init_clones env interactive taxonomy_path repository"
    unfolding init_clones_iff by (auto simp: init_declined_def)
  then show "filter is_clone
        (fst (init env interactive model_path taxonomy_path taxonomy_base repository min_taxonomy)) =
        [CloneFrom repository (init_taxonomy_path env interactive taxonomy_path) ''main'' True
           (clone_depth min_taxonomy)]"
    by (simp add: init_clone_events)
qed

theorem init_clone_once_witness:
  "listdir populated_dir (init_taxonomy_path populated_dir False ''/tax'') =
     Inr (''README.md'' # [''knowledge'']) \<and>
   filter is_clone
     (fst (init populated_dir False ''/models/m'' ''/tax'' ''origin/main'' taxonomy_repo False)) = [] \<and>
   listdir fresh_dir (init_taxonomy_path fresh_dir True ''/tax'') = Inr [] \<and>
   \<not> init_declined fresh_dir True \<and>
   confirm fresh_dir (clone_question (init_taxonomy_path fresh_dir True ''/tax'') taxonomy_repo) \<and>
   filter is_clone
     (fst (init fresh_dir True ''/models/m'' ''/tax'' ''origin/main'' taxonomy_repo False)) =
     [CloneFrom taxonomy_repo ''/tax'' ''main'' True (PyBool False)] \<and>
   listdir fresh_dir (init_taxonomy_path fresh_dir False ''taxonomy'') =
     Inl (FileNotFoundError ''taxonomy'') \<and>
   filter is_clone
     (fst (init fresh_dir False ''/models/m'' ''taxonomy'' ''origin/main'' taxonomy_repo True)) =
     [CloneFrom taxonomy_repo ''taxonomy'' ''main'' True (PyInt 1)]"
  using init_clone_once [where env = populated_dir and interactive = False
      and taxonomy_path = "''/tax''" and x = "''README.md''" and xs = "[''knowledge'']"
      and model_path = "''/models/m''" and taxonomy_base = "''origin/main''"
      and repository = taxonomy_repo and min_taxonomy = False]
    init_clone_once [where env = fresh_dir and interactive = True
      and taxonomy_path = "''/tax''"
      and model_path = "''/models/m''" and taxonomy_base = "''origin/main''"
      and repository = taxonomy_repo and min_taxonomy = False]
    init_clone_once [where env = fresh_dir and interactive = False
      and taxonomy_path = "''taxonomy''" and m = "''taxonomy''"
      and model_path = "''/models/m''" and taxonomy_base = "''origin/main''"
      and repository = taxonomy_repo and min_taxonomy = True]
  by (simp add: populated_dir_def fresh_dir_def init_taxonomy_path_def init_declined_def
        clone_depth_def isabs_def)

text \<open>
  Claim C5. Every clone \<open>init\<close> requests has \<open>depth=1\<close> when \<open>min_taxonomy\<close> is set and
  \<open>depth=False\<close> when it is not: no depth limit is asked for, so the history is cloned in
  full.
\<close>

theorem init_clone_depth:
  assumes "CloneFrom r p br rs d \<in>
             set (fst (init env interactive model_path taxonomy_path taxonomy_base repository min_taxonomy))"
  shows "(min_taxonomy \<longrightarrow> d = PyInt 1) \<and> (\<not> min_taxonomy \<longrightarrow> d = PyBool False)"
proof -
  from assms have "CloneFrom r p br rs d \<in>
      set (filter is_clone
             (fst (init env interactive model_path taxonomy_path taxonomy_base repository min_taxonomy)))"
    by simp
  then have "d = clone_depth min_taxonomy"
    unfolding init_clone_events by (simp split: if_splits)
  then show ?thesis by (simp add: clone_depth_def)
qed

theorem init_clone_depth_witness:
  "CloneFrom taxonomy_repo ''/tax'' ''main'' True (PyInt 1) \<in>
     set (fst (init fresh_dir False ''/models/m'' ''/tax'' ''origin/main'' taxonomy_repo True)) \<and>
   CloneFrom taxonomy_repo ''/tax'' ''main'' True (PyBool False) \<in>
     set (fst (init fresh_dir False ''/models/m'' ''/tax'' ''origin/main'' taxonomy_repo False)) \<and>
   PyInt 1 \<noteq> PyBool False"
proof -
  have a: "CloneFrom taxonomy_repo ''/tax'' ''main'' True (PyInt 1) \<in>
     set (fst (init fresh_dir False ''/models/m'' ''/tax'' ''origin/main'' taxonomy_repo True))"
    by (simp add: init_stage_defs fresh_dir_def)
  have b: "CloneFrom taxonomy_repo ''/tax'' ''main'' True (PyBool False) \<in>
     set (fst (init fresh_dir False ''/models/m'' ''/tax'' ''origin/main'' taxonomy_repo False))"
    by (simp add: init_stage_defs fresh_dir_def)
  show ?thesis
    using a b init_clone_depth [OF a] init_clone_depth [OF b] by simp
qed

text \<open>
  Claim C6. A run of \<open>init\<close> that writes the configuration writes it once, with the model
  path in \<open>chat.model\<close>, \<open>generate.model\<close> and \<open>serve.model_path\<close>, the taxonomy path in
  \<open>generate.taxonomy_path\<close> and the base in \<open>generate.taxonomy_base\<close>, and returns, so the
  exit code is 0. Every run that returns without having been declined at the first
  question writes the configuration.
\<close>

theorem init_writes_config:
  "(WriteConfig c \<in>
      set (fst (init env interactive model_path taxonomy_path taxonomy_base repository min_taxonomy)) \<longrightarrow>
      chat_model (chat c) = init_model_path env interactive model_path \<and>
      generate_model (generate c) = init_model_path env interactive model_path \<and>
      serve_model_path (serve c) = init_model_path env interactive model_path \<and>
      generate_taxonomy_path (generate c) = init_taxonomy_path env interactive taxonomy_path \<and>
      generate_taxonomy_base (generate c) = taxonomy_base \<and>
      filter is_write
        (fst (init env interactive model_path taxonomy_path taxonomy_base repository min_taxonomy)) =
        [WriteConfig c] \<and>
      snd (init env interactive model_path taxonomy_path taxonomy_base repository min_taxonomy) =
        Returned \<and>
      exit_code (snd (init env interactive model_path taxonomy_path taxonomy_base repository
                        min_taxonomy)) = 0) \<and>
   (snd (init env interactive model_path taxonomy_path taxonomy_base repository min_taxonomy) =
      Returned \<and> \<not> init_declined env interactive \<longrightarrow>
      filter is_write
        (fst (init env interactive model_path taxonomy_path taxonomy_base repository min_taxonomy)) =
        [WriteConfig (init_cfg env (init_model_path env interactive model_path)
                        (init_taxonomy_path env interactive taxonomy_path) taxonomy_base)])"
proof (intro conjI impI)
  assume "snd (init env interactive model_path taxonomy_path taxonomy_base repository min_taxonomy) =
      Returned \<and> \<not> init_declined env interactive"
  then show "filter is_write
        (fst (init env interactive model_path taxonomy_path taxonomy_base repository min_taxonomy)) =
        [WriteConfig (init_cfg env (init_model_path env interactive model_path)
                        (init_taxonomy_path env interactive taxonomy_path) taxonomy_base)]"
    by (simp add: init_write_events)
next
  assume "WriteConfig c \<in>
      set (fst (init env interactive model_path taxonomy_path taxonomy_base repository min_taxonomy))"
  then have m: "WriteConfig c \<in> set (filter is_write
      (fst (init env interactive model_path taxonomy_path taxonomy_base repository min_taxonomy)))"
    by simp
  then have r: "snd (init env interactive model_path taxonomy_path taxonomy_base repository
      min_taxonomy) = Returned"
    and nd: "\<not> init_declined env interactive"
    and c: "c = init_cfg env (init_model_path env interactive model_path)
                  (init_taxonomy_path env interactive taxonomy_path) taxonomy_base"
    unfolding init_write_events by (simp_all split: if_splits)
  show "chat_model (chat c) = init_model_path env interactive model_path"
    and "generate_model (generate c) = init_model_path env interactive model_path"
    and "serve_model_path (serve c) = init_model_path env interactive model_path"
    and "generate_taxonomy_path (generate c) = init_taxonomy_path env interactive taxonomy_path"
    and "generate_taxonomy_base (generate c) = taxonomy_base"
    by (simp_all add: c init_cfg_fields)
  show "snd (init env interactive model_path taxonomy_path taxonomy_base repository min_taxonomy) =
        Returned"
    by (rule r)
  then show "exit_code (snd (init env interactive model_path taxonomy_path taxonomy_base repository
                        min_taxonomy)) = 0"
    by simp
  show "filter is_write
        (fst (init env interactive model_path taxonomy_path taxonomy_base repository min_taxonomy)) =
        [WriteConfig c]"
    using r nd c by (simp add: init_write_events)
qed

theorem init_writes_config_witness:
  "init fresh_dir False ''/models/m'' ''/tax'' ''origin/main'' taxonomy_repo False =
     ([Echo ''Cloning https://github.com/instructlab/taxonomy.git...'',
       CloneFrom taxonomy_repo ''/tax'' ''main'' True (PyBool False),
       Echo ''Generating `config.yaml` in the current directory...'',
       WriteConfig
         \<lparr>chat = \<lparr>chat_model = ''/models/m''\<rparr>,
          generate = \<lparr>generate_model = ''/models/m'',
                      generate_taxonomy_path = ''/tax'',
                      generate_taxonomy_base = ''origin/main''\<rparr>,
          serve = \<lparr>serve_model_path = ''/models/m''\<rparr>\<rparr>,
       Echo ''Initialization completed successfully, you're ready to start using `ilab`. Enjoy!''],
      Returned) \<and>
   \<not> init_declined fresh_dir False \<and>
   init_model_path fresh_dir False ''/models/m'' = ''/models/m'' \<and>
   init_taxonomy_path fresh_dir False ''/tax'' = ''/tax'' \<and>
   exit_code (snd (init fresh_dir False ''/models/m'' ''/tax'' ''origin/main'' taxonomy_repo False)) = 0"
proof -
  have run: "init fresh_dir False ''/models/m'' ''/tax'' ''origin/main'' taxonomy_repo False =
     ([Echo ''Cloning https://github.com/instructlab/taxonomy.git...'',
       CloneFrom taxonomy_repo ''/tax'' ''main'' True (PyBool False),
       Echo ''Generating `config.yaml` in the current directory...'',
       WriteConfig
         \<lparr>chat = \<lparr>chat_model = ''/models/m''\<rparr>,
          generate = \<lparr>generate_model = ''/models/m'',
                      generate_taxonomy_path = ''/tax'',
                      generate_taxonomy_base = ''origin/main''\<rparr>,
          serve = \<lparr>serve_model_path = ''/models/m''\<rparr>\<rparr>,
       Echo ''Initialization completed successfully, you're ready to start using `ilab`. Enjoy!''],
      Returned)"
    by (simp add: init_stage_defs fresh_dir_def taxonomy_repo_def example_config_def)
  show ?thesis
    using init_writes_config [where env = fresh_dir and interactive = False
        and model_path = "''/models/m''" and taxonomy_path = "''/tax''"
        and taxonomy_base = "''origin/main''" and repository = taxonomy_repo
        and min_taxonomy = False
        and c = "\<lparr>chat = \<lparr>chat_model = ''/models/m''\<rparr>,
          generate = \<lparr>generate_model = ''/models/m'',
                      generate_taxonomy_path = ''/tax'',
                      generate_taxonomy_base = ''origin/main''\<rparr>,
          serve = \<lparr>serve_model_path = ''/models/m''\<rparr>\<rparr>"]
    by (simp add: run init_declined_def init_model_path_def init_taxonomy_path_def)
qed

text \<open>
  Claim C7 as stated fails: in non-interactive mode the paths go into the configuration
  as they were given. Run with the relative paths \<open>taxonomy\<close> and \<open>models/m.gguf\<close>, \<open>init\<close>
  writes both unchanged.
\<close>

theorem init_relative_path_counterexample:
  "init fresh_dir False ''models/m.gguf'' ''taxonomy'' ''origin/main'' taxonomy_repo False =
     ([Echo ''Cloning https://github.com/instructlab/taxonomy.git...'',
       CloneFrom taxonomy_repo ''taxonomy'' ''main'' True (PyBool False),
       Echo ''Generating `config.yaml` in the current directory...'',
       WriteConfig
         \<lparr>chat = \<lparr>chat_model = ''models/m.gguf''\<rparr>,
          generate = \<lparr>generate_model = ''models/m.gguf'',
                      generate_taxonomy_path = ''taxonomy'',
                      generate_taxonomy_base = ''origin/main''\<rparr>,
          serve = \<lparr>serve_model_path = ''models/m.gguf''\<rparr>\<rparr>,
       Echo ''Initialization completed successfully, you're ready to start using `ilab`. Enjoy!''],
      Returned) \<and>
   \<not> isabs ''taxonomy'' \<and> \<not> isabs ''models/m.gguf''"
  by (simp add: init_stage_defs fresh_dir_def taxonomy_repo_def example_config_def isabs_def)

text \<open>
  Claim C7, amended. In a configuration that \<open>init\<close> writes, the taxonomy path is the
  expansion of the prompted answer in interactive mode and the given argument otherwise;
  the model path is the expansion of the prompted answer in interactive mode when the
  model's directory exists, and the given argument otherwise. So where \<open>expand_path\<close>
  yields absolute paths, the prompted fields are absolute; the others are as supplied.
\<close>

theorem init_persisted_paths:
  assumes "WriteConfig c \<in>
      set (fst (init env interactive model_path taxonomy_path taxonomy_base repository min_taxonomy))"
  shows "generate_taxonomy_path (generate c) =
           (if interactive
            then expand_path env (prompt env ''Path to taxonomy repo'' taxonomy_path)
            else taxonomy_path) \<and>
         chat_model (chat c) =
           (if interactive \<and> exists_models_dir env (dirname env model_path)
            then expand_path env (prompt env ''Path to your model'' model_path)
            else model_path) \<and>
         generate_model (generate c) = chat_model (chat c) \<and>
         serve_model_path (serve c) = chat_model (chat c) \<and>
         ((\<forall>q. isabs (expand_path env q)) \<and> interactive \<longrightarrow>
            isabs (generate_taxonomy_path (generate c)) \<and>
            (exists_models_dir env (dirname env model_path) \<longrightarrow> isabs (chat_model (chat c))))"
proof -
  from assms have "WriteConfig c \<in> set (filter is_write
      (fst (init env interactive model_path taxonomy_path taxonomy_base repository min_taxonomy)))"
    by simp
  then have c: "c = init_cfg env (init_model_path env interactive model_path)
                  (init_taxonomy_path env interactive taxonomy_path) taxonomy_base"
    unfolding init_write_events by (simp split: if_splits)
  show ?thesis
    by (simp add: c init_cfg_fields init_model_path_def init_taxonomy_path_def)
qed

theorem init_persisted_paths_witness:
  "WriteConfig
     \<lparr>chat = \<lparr>chat_model = ''/home/user/models/m.gguf''\<rparr>,
      generate = \<lparr>generate_model = ''/home/user/models/m.gguf'',
                  generate_taxonomy_path = ''/home/user/taxonomy'',
                  generate_taxonomy_base = ''origin/main''\<rparr>,
      serve = \<lparr>serve_model_path = ''/home/user/models/m.gguf''\<rparr>\<rparr> \<in>
     set (fst (init (fresh_dir\<lparr>exists_models_dir := (\<lambda>p. True)\<rparr>) True ''models/m.gguf''
                 ''taxonomy'' ''origin/main'' taxonomy_repo False)) \<and>
   (\<forall>q. isabs (expand_path (fresh_dir\<lparr>exists_models_dir := (\<lambda>p. True)\<rparr>) q)) \<and>
   isabs ''/home/user/taxonomy'' \<and> isabs ''/home/user/models/m.gguf''"
proof -
  let ?c = "\<lparr>chat = \<lparr>chat_model = ''/home/user/models/m.gguf''\<rparr>,
      generate = \<lparr>generate_model = ''/home/user/models/m.gguf'',
                  generate_taxonomy_path = ''/home/user/taxonomy'',
                  generate_taxonomy_base = ''origin/main''\<rparr>,
      serve = \<lparr>serve_model_path = ''/home/user/models/m.gguf''\<rparr>\<rparr>"
  have w: "WriteConfig ?c \<in>
     set (fst (init (fresh_dir\<lparr>exists_models_dir := (\<lambda>p. True)\<rparr>) True ''models/m.gguf''
                 ''taxonomy'' ''origin/main'' taxonomy_repo False))"
    by (simp add: init_stage_defs fresh_dir_def example_config_def isabs_def)
  have e: "\<forall>q. isabs (expand_path (fresh_dir\<lparr>exists_models_dir := (\<lambda>p. True)\<rparr>) q)"
    by (simp add: fresh_dir_def isabs_def)
  show ?thesis
    using w e init_persisted_paths [OF w] by (simp add: isabs_def)
qed

text \<open>
  Claim C8. When the clone that \<open>init\<close> requests fails with a \<open>GitError\<close>, the run ends with
  the failure printed in red, then the advice to run \<open>git clone\<close> by hand, then
  \<open>click.exceptions.Exit(1)\<close>: the exit code is 1, nothing is raised unhandled and no
  configuration is written.
\<close>

theorem init_clone_failure:
  assumes "CloneFrom r p br rs d \<in>
             set (fst (init env interactive model_path taxonomy_path taxonomy_base repository min_taxonomy))"
    and "clone_from env r p br rs d = Some (GitError m)"
  shows "snd (init env interactive model_path taxonomy_path taxonomy_base repository min_taxonomy) =
           ClickExit 1 \<and>
         exit_code (snd (init env interactive model_path taxonomy_path taxonomy_base repository
                           min_taxonomy)) = 1 \<and>
         (\<exists>tr. fst (init env interactive model_path taxonomy_path taxonomy_base repository
                       min_taxonomy) =
                  tr @ [CloneFrom r p br rs d,
                        Secho (''Failed to clone taxonomy repo: '' @ m) (Some ''red''),
                        Secho (''Please make sure to manually run `git clone '' @ repository @ ''`'')
                          None]) \<and>
         filter is_write
           (fst (init env interactive model_path taxonomy_path taxonomy_base repository
                   min_taxonomy)) = []"
proof -
  let ?tp = "init_taxonomy_path env interactive taxonomy_path"
  from assms(1) have m: "CloneFrom r p br rs d \<in>
      set (filter is_clone
             (fst (init env interactive model_path taxonomy_path taxonomy_base repository min_taxonomy)))"
    by simp
  then have cl: "init_clones env interactive taxonomy_path repository"
    and eq: "r = repository" "p = ?tp" "br = ''main''" "rs = True" "d = clone_depth min_taxonomy"
    unfolding init_clone_events by (simp_all split: if_splits)
  from cl have nd: "\<not> init_declined env interactive" by (simp add: init_clones_def)
  from cl obtain cs where cs: "init_contents env ?tp = Inr cs"
    and dec: "snd (init_decide env interactive repository ?tp cs)"
    by (auto simp: init_clones_def split: sum.splits)
  have c: "init_clone env repository min_taxonomy ?tp =
      ([Echo (''Cloning '' @ repository @ ''...''),
        CloneFrom repository ?tp ''main'' True (clone_depth min_taxonomy),
        Secho (''Failed to clone taxonomy repo: '' @ m) (Some ''red''),
        Secho (''Please make sure to manually run `git clone '' @ repository @ ''`'') None],
       Some (ClickExit 1))"
    using assms(2) eq by (simp add: init_clone_def)
  have run: "init env interactive model_path taxonomy_path taxonomy_base repository min_taxonomy =
      (init_welcome env interactive taxonomy_path @
         fst (init_decide env interactive repository ?tp cs) @
         [Echo (''Cloning '' @ repository @ ''...''),
          CloneFrom repository ?tp ''main'' True (clone_depth min_taxonomy),
          Secho (''Failed to clone taxonomy repo: '' @ m) (Some ''red''),
          Secho (''Please make sure to manually run `git clone '' @ repository @ ''`'') None],
       ClickExit 1)"
    using nd cs dec c by (simp add: init_when_listed)
  have "\<exists>tr. fst (init env interactive model_path taxonomy_path taxonomy_base repository
                       min_taxonomy) =
                  tr @ [CloneFrom r p br rs d,
                        Secho (''Failed to clone taxonomy repo: '' @ m) (Some ''red''),
                        Secho (''Please make sure to manually run `git clone '' @ repository @ ''`'')
                          None]"
    unfolding run eq
    by (rule exI [of _ "init_welcome env interactive taxonomy_path @
         fst (init_decide env interactive repository ?tp cs) @
         [Echo (''Cloning '' @ repository @ ''...'')]"]) simp
  moreover have "snd (init env interactive model_path taxonomy_path taxonomy_base repository
      min_taxonomy) = ClickExit 1"
    by (simp add: run)
  moreover have "filter is_write
           (fst (init env interactive model_path taxonomy_path taxonomy_base repository
                   min_taxonomy)) = []"
    by (simp add: run)
  ultimately show ?thesis by simp
qed

theorem init_clone_failure_witness:
  "CloneFrom taxonomy_repo ''/tax'' ''main'' True (PyBool False) \<in>
     set (fst (init unreachable_remote False ''/models/m'' ''/tax'' ''origin/main'' taxonomy_repo False)) \<and>
   clone_from unreachable_remote taxonomy_repo ''/tax'' ''main'' True (PyBool False) =
     Some (GitError ''repository not found'') \<and>
   init unreachable_remote False ''/models/m'' ''/tax'' ''origin/main'' taxonomy_repo False =
     ([Echo ''Cloning https://github.com/instructlab/taxonomy.git...'',
       CloneFrom taxonomy_repo ''/tax'' ''main'' True (PyBool False),
       Secho ''Failed to clone taxonomy repo: repository not found'' (Some ''red''),
       Secho ''Please make sure to manually run `git clone https://github.com/instructlab/taxonomy.git`''
         None],
      ClickExit 1)"
proof -
  have run: "init unreachable_remote False ''/models/m'' ''/tax'' ''origin/main'' taxonomy_repo False =
     ([Echo ''Cloning https://github.com/instructlab/taxonomy.git...'',
       CloneFrom taxonomy_repo ''/tax'' ''main'' True (PyBool False),
       Secho ''Failed to clone taxonomy repo: repository not found'' (Some ''red''),
       Secho ''Please make sure to manually run `git clone https://github.com/instructlab/taxonomy.git`''
         None],
      ClickExit 1)"
    by (simp add: init_stage_defs unreachable_remote_def fresh_dir_def taxonomy_repo_def)
  have a: "CloneFrom taxonomy_repo ''/tax'' ''main'' True (PyBool False) \<in>
     set (fst (init unreachable_remote False ''/models/m'' ''/tax'' ''origin/main'' taxonomy_repo False))"
    by (simp add: run)
  have b: "clone_from unreachable_remote taxonomy_repo ''/tax'' ''main'' True (PyBool False) =
     Some (GitError ''repository not found'')"
    by (simp add: unreachable_remote_def)
  show ?thesis
    using a b run init_clone_failure [OF a b] by simp
qed

subsection \<open>Properties of \<open>diff\<close>\<close>

text \<open>
  Claim C10. In \<open>diff\<close>, when \<open>taxonomy_base\<close> or \<open>taxonomy_path\<close> is not supplied,
  \<open>ctx.obj.config\<close> is read before \<open>ctx.obj\<close> is tested. With no loaded context the command
  ends on an unhandled \<open>AttributeError\<close> with nothing printed and no exit request; and
  whenever the resolution does reach the choice of the logger, the context is loaded and
  the logger is the context's, so the fallback logger is never the one chosen.
\<close>

theorem diff_unloaded_context_raises:
  assumes "py_not taxonomy_base \<or> py_not taxonomy_path"
  shows "(obj ctx = None \<longrightarrow>
            diff env ctx taxonomy_path taxonomy_base yaml_rules quiet =
              ([], Raised (AttributeError no_attribute_config))) \<and>
         (diff_resolve ctx taxonomy_path taxonomy_base = Inr (p, b, lg) \<longrightarrow>
            (\<exists>lab. obj ctx = Some lab \<and> lg = logger lab))"
proof (intro conjI impI)
  assume n: "obj ctx = None"
  have "diff_resolve ctx taxonomy_path taxonomy_base =
          Inl (AttributeError no_attribute_config)"
    using assms n
    by (auto simp: diff_resolve_def resolve_option_def ctx_generate_def split: option.splits sum.splits)
  then show "diff env ctx taxonomy_path taxonomy_base yaml_rules quiet =
              ([], Raised (AttributeError no_attribute_config))"
    by (simp add: diff_def)
next
  assume r: "diff_resolve ctx taxonomy_path taxonomy_base = Inr (p, b, lg)"
  then obtain lab where "obj ctx = Some lab"
    using assms
    by (cases "obj ctx") (auto simp: diff_resolve_def resolve_option_def ctx_generate_def split: option.splits sum.splits if_splits)
  moreover from r have "lg = diff_logger ctx"
    by (auto simp: diff_resolve_def split: sum.splits)
  ultimately show "\<exists>lab. obj ctx = Some lab \<and> lg = logger lab"
    by (simp add: diff_logger_def)
qed

theorem diff_unloaded_context_raises_witness:
  "py_not None \<and> obj no_ctx = None \<and>
   diff failing_repo no_ctx (Some ''taxonomy'') None None False =
     ([], Raised (AttributeError no_attribute_config)) \<and>
   diff_resolve example_ctx (Some ''docs'') None = Inr (''docs'', ''origin/main'', Logger ''ilab'') \<and>
   (\<exists>lab. obj example_ctx = Some lab \<and> Logger ''ilab'' = logger lab)"
  using diff_unloaded_context_raises [of None "Some ''taxonomy''" no_ctx failing_repo None False]
    diff_unloaded_context_raises [of None "Some ''docs''" example_ctx failing_repo None False
       "''docs''" "''origin/main''" "Logger ''ilab''"]
  by (simp add: no_ctx_def example_ctx_def example_config_def diff_resolve_def resolve_option_def
        ctx_generate_def diff_logger_def)

lemma diff_resolved:
  "diff_resolve ctx taxonomy_path taxonomy_base = Inr (p, b, lg) \<Longrightarrow>
     diff env ctx taxonomy_path taxonomy_base yaml_rules quiet =
       (case diff_listing env quiet p b of
          (tr, Some out) \<Rightarrow> (tr, out)
        | (tr, None) \<Rightarrow>
            (case diff_validation env quiet lg p b yaml_rules of (tr', out) \<Rightarrow> (tr @ tr', out)))"
  by (simp add: diff_def)

lemma diff_unresolved:
  "diff_resolve ctx taxonomy_path taxonomy_base = Inl e \<Longrightarrow>
     diff env ctx taxonomy_path taxonomy_base yaml_rules quiet = ([], Raised e)"
  by (simp add: diff_def)

lemma diff_listing_quiet: "diff_listing env True p b = ([], None)"
  by (simp add: diff_listing_def)

lemma diff_listing_file: "isfile env p \<Longrightarrow> diff_listing env False p b = ([Echo p], None)"
  by (simp add: diff_listing_def)

lemma diff_validation_quiet:
  "diff_validation env True lg p b y =
     ([ReadTaxonomy lg p b y],
      case read_taxonomy env lg p b y of
        Inl exc \<Rightarrow> if validation_handler exc then SysExit 1 else Raised exc
      | Inr u \<Rightarrow> Returned)"
  by (simp add: diff_validation_def split: sum.splits)

lemma diff_validation_loud:
  "diff_validation env False lg p b y =
     (case read_taxonomy env lg p b y of
        Inl exc \<Rightarrow>
          if validation_handler exc
          then ([ReadTaxonomy lg p b y, reading_failed exc], SysExit 1)
          else ([ReadTaxonomy lg p b y], Raised exc)
      | Inr u \<Rightarrow>
          ([ReadTaxonomy lg p b y,
            Secho (''Taxonomy in /'' @ p @ ''/ is valid :)'') (Some ''green'')], Returned))"
  by (simp add: diff_validation_def split: sum.splits)

text \<open>
  Claim C1. A non-quiet \<open>diff\<close> whose taxonomy path is not a file, and whose call of
  \<open>get_taxonomy_diff\<close> raises a \<open>GitError\<close> or a \<open>SystemExit\<close>, prints the error in red and
  exits with code 1; \<open>read_taxonomy\<close> is not called. The path and the base are the ones
  resolved at lines 218 to 221, with which the listing is called.
\<close>

theorem diff_listing_failure_exits:
  assumes "diff_resolve ctx taxonomy_path taxonomy_base = Inr (p, b, lg)"
    and "\<not> isfile env p"
    and "get_taxonomy_diff env p b = Inl exc"
    and "exc = GitError m \<or> exc = SystemExit m"
  shows "diff env ctx taxonomy_path taxonomy_base yaml_rules False =
           ([GetTaxonomyDiff p b, reading_failed exc], SysExit 1) \<and>
         exit_code (snd (diff env ctx taxonomy_path taxonomy_base yaml_rules False)) = 1 \<and>
         filter is_validation (fst (diff env ctx taxonomy_path taxonomy_base yaml_rules False)) = []"
proof -
  from assms(4) have h: "listing_handler exc" by auto
  have "diff_listing env False p b = ([GetTaxonomyDiff p b, reading_failed exc], Some (SysExit 1))"
    using assms(2,3) h by (simp add: diff_listing_def)
  then have "diff env ctx taxonomy_path taxonomy_base yaml_rules False =
           ([GetTaxonomyDiff p b, reading_failed exc], SysExit 1)"
    using assms(1) by (simp add: diff_resolved)
  then show ?thesis by (simp add: reading_failed_def)
qed

theorem diff_listing_failure_exits_witness:
  "diff_resolve example_ctx None None = Inr (''taxonomy'', ''origin/main'', Logger ''ilab'') \<and>
   \<not> isfile failing_repo ''taxonomy'' \<and>
   get_taxonomy_diff failing_repo ''taxonomy'' ''origin/main'' = Inl (GitError ''bad revision'') \<and>
   diff failing_repo example_ctx None None None False =
     ([GetTaxonomyDiff ''taxonomy'' ''origin/main'',
       Secho ''Reading taxonomy failed with the following error: bad revision'' (Some ''red'')],
      SysExit 1)"
proof -
  have r: "diff_resolve example_ctx None None = Inr (''taxonomy'', ''origin/main'', Logger ''ilab'')"
    by (simp add: example_ctx_def example_config_def diff_resolve_def resolve_option_def
        ctx_generate_def diff_logger_def)
  have f: "\<not> isfile failing_repo ''taxonomy''"
    by (simp add: failing_repo_def)
  have g: "get_taxonomy_diff failing_repo ''taxonomy'' ''origin/main'' = Inl (GitError ''bad revision'')"
    by (simp add: failing_repo_def)
  show ?thesis
    using diff_listing_failure_exits [OF r f g, of "''bad revision''" None] r f g
    by (simp add: reading_failed_def)
qed

text \<open>
  Claim C2. A quiet \<open>diff\<close> prints nothing, whatever happens. Once path, base and logger
  are resolved, its exit code is 0 when \<open>read_taxonomy\<close> returns and 1 when it raises; for
  the two exceptions the command handles the exit is its own \<open>SystemExit(1)\<close>.
\<close>

theorem diff_quiet_silent:
  "filter is_output (fst (diff env ctx taxonomy_path taxonomy_base yaml_rules True)) = [] \<and>
   (diff_resolve ctx taxonomy_path taxonomy_base = Inr (p, b, lg) \<longrightarrow>
      (read_taxonomy env lg p b yaml_rules = Inr () \<longrightarrow>
         snd (diff env ctx taxonomy_path taxonomy_base yaml_rules True) = Returned \<and>
         exit_code (snd (diff env ctx taxonomy_path taxonomy_base yaml_rules True)) = 0) \<and>
      (read_taxonomy env lg p b yaml_rules = Inl exc \<longrightarrow>
         exit_code (snd (diff env ctx taxonomy_path taxonomy_base yaml_rules True)) = 1 \<and>
         (validation_handler exc \<longrightarrow>
            snd (diff env ctx taxonomy_path taxonomy_base yaml_rules True) = SysExit 1)))"
proof (intro conjI impI)
  show "filter is_output (fst (diff env ctx taxonomy_path taxonomy_base yaml_rules True)) = []"
  proof (cases "diff_resolve ctx taxonomy_path taxonomy_base")
    case (Inl e)
    then show ?thesis by (simp add: diff_unresolved)
  next
    case (Inr t)
    then obtain p' b' lg' where "diff_resolve ctx taxonomy_path taxonomy_base = Inr (p', b', lg')"
      by (cases t) auto
    then show ?thesis
      by (simp add: diff_resolved diff_listing_quiet diff_validation_quiet)
  qed
next
  assume "diff_resolve ctx taxonomy_path taxonomy_base = Inr (p, b, lg)"
    and "read_taxonomy env lg p b yaml_rules = Inr ()"
  then show "snd (diff env ctx taxonomy_path taxonomy_base yaml_rules True) = Returned"
    by (simp add: diff_resolved diff_listing_quiet diff_validation_quiet)
  then show "exit_code (snd (diff env ctx taxonomy_path taxonomy_base yaml_rules True)) = 0"
    by simp
next
  assume r: "diff_resolve ctx taxonomy_path taxonomy_base = Inr (p, b, lg)"
    and f: "read_taxonomy env lg p b yaml_rules = Inl exc"
  then show "exit_code (snd (diff env ctx taxonomy_path taxonomy_base yaml_rules True)) = 1"
    by (simp add: diff_resolved diff_listing_quiet diff_validation_quiet)
  assume "validation_handler exc"
  with r f show "snd (diff env ctx taxonomy_path taxonomy_base yaml_rules True) = SysExit 1"
    by (simp add: diff_resolved diff_listing_quiet diff_validation_quiet)
qed

theorem diff_quiet_silent_witness:
  "diff_resolve example_ctx None None = Inr (''taxonomy'', ''origin/main'', Logger ''ilab'') \<and>
   read_taxonomy failing_repo (Logger ''ilab'') ''taxonomy'' ''origin/main'' None = Inl (YAMLError ''line 3'') \<and>
   validation_handler (YAMLError ''line 3'') \<and>
   diff failing_repo example_ctx None None None True =
     ([ReadTaxonomy (Logger ''ilab'') ''taxonomy'' ''origin/main'' None], SysExit 1) \<and>
   read_taxonomy valid_repo (Logger ''ilab'') ''taxonomy'' ''origin/main'' None = Inr () \<and>
   diff valid_repo example_ctx None None None True =
     ([ReadTaxonomy (Logger ''ilab'') ''taxonomy'' ''origin/main'' None], Returned)"
  using diff_quiet_silent [of failing_repo example_ctx None None None
      "''taxonomy''" "''origin/main''" "Logger ''ilab''" "YAMLError ''line 3''"]
    diff_quiet_silent [of valid_repo example_ctx None None None
      "''taxonomy''" "''origin/main''" "Logger ''ilab''"]
  by (simp add: example_ctx_def example_config_def diff_resolve_def resolve_option_def
        ctx_generate_def diff_logger_def failing_repo_def valid_repo_def diff_def
        diff_listing_def diff_validation_def)

text \<open>
  Claim C3. A non-quiet \<open>diff\<close> whose resolved taxonomy path is a file echoes exactly that
  path, does not call \<open>get_taxonomy_diff\<close>, and calls \<open>read_taxonomy\<close> once, with the
  resolved path and base; what follows the echo is the validation and nothing else.
\<close>

theorem diff_single_file:
  assumes "diff_resolve ctx taxonomy_path taxonomy_base = Inr (p, b, lg)"
    and "isfile env p"
  shows "filter is_echo (fst (diff env ctx taxonomy_path taxonomy_base yaml_rules False)) = [Echo p] \<and>
         filter is_diff_list (fst (diff env ctx taxonomy_path taxonomy_base yaml_rules False)) = [] \<and>
         filter is_validation (fst (diff env ctx taxonomy_path taxonomy_base yaml_rules False)) =
           [ReadTaxonomy lg p b yaml_rules] \<and>
         diff env ctx taxonomy_path taxonomy_base yaml_rules False =
           (Echo p # fst (diff_validation env False lg p b yaml_rules),
            snd (diff_validation env False lg p b yaml_rules))"
proof -
  have d: "diff env ctx taxonomy_path taxonomy_base yaml_rules False =
           (Echo p # fst (diff_validation env False lg p b yaml_rules),
            snd (diff_validation env False lg p b yaml_rules))"
    using assms by (simp add: diff_resolved diff_listing_file split: prod.splits)
  show ?thesis
    unfolding d
    by (simp add: diff_validation_loud reading_failed_def split: sum.splits)
qed

theorem diff_single_file_witness:
  "diff_resolve example_ctx (Some ''compositional_skills/qna.yaml'') None =
     Inr (''compositional_skills/qna.yaml'', ''origin/main'', Logger ''ilab'') \<and>
   isfile failing_repo ''compositional_skills/qna.yaml'' \<and>
   diff failing_repo example_ctx (Some ''compositional_skills/qna.yaml'') None None False =
     ([Echo ''compositional_skills/qna.yaml'',
       ReadTaxonomy (Logger ''ilab'') ''compositional_skills/qna.yaml'' ''origin/main'' None,
       Secho ''Taxonomy in /compositional_skills/qna.yaml/ is valid :)'' (Some ''green'')],
      Returned)"
proof -
  have r: "diff_resolve example_ctx (Some ''compositional_skills/qna.yaml'') None =
     Inr (''compositional_skills/qna.yaml'', ''origin/main'', Logger ''ilab'')"
    by (simp add: example_ctx_def example_config_def diff_resolve_def resolve_option_def
        ctx_generate_def diff_logger_def)
  have f: "isfile failing_repo ''compositional_skills/qna.yaml''"
    by (simp add: failing_repo_def)
  have v: "diff_validation failing_repo False (Logger ''ilab'') ''compositional_skills/qna.yaml''
             ''origin/main'' None =
           ([ReadTaxonomy (Logger ''ilab'') ''compositional_skills/qna.yaml'' ''origin/main'' None,
             Secho ''Taxonomy in /compositional_skills/qna.yaml/ is valid :)'' (Some ''green'')],
            Returned)"
    by (simp add: diff_validation_def failing_repo_def)
  show ?thesis
    using diff_single_file [OF r f, of None] r f v by simp
qed




end
